theory Spec2Isabelle
  imports Complex_Main "HOL-Library.Sublist"
begin

section \<open>Result model (audio\_player.py, lines 21--38)\<close>

datatype PlaybackStatus =
  SUCCESS | FAILED | FALLBACK_USED | TIMEOUT | FILE_NOT_FOUND | UNSUPPORTED_FORMAT

record PlaybackResult =
  status :: PlaybackStatus
  message :: string
  duration_ms :: "int option"
  backend_used :: "string option"
  fallback_used :: bool

text \<open>
  The dataclass constructor as the source calls it: \<open>status\<close> and \<open>message\<close> are always
  given, \<open>backend_used\<close> sometimes, and \<open>duration_ms\<close> and \<open>fallback_used\<close> keep their
  defaults \<open>None\<close> and \<open>False\<close>.
\<close>

definition mk_result :: "PlaybackStatus \<Rightarrow> string \<Rightarrow> string option \<Rightarrow> PlaybackResult" where
  "mk_result st msg bu =
     \<lparr>status = st, message = msg, duration_ms = None, backend_used = bu, fallback_used = False\<rparr>"

text \<open>
  The exceptions that reach a caller. The abstract base class raises
  \<open>NotImplementedError\<close>. \<open>file_path.exists()\<close> is called before the \<open>try\<close> blocks of the two
  \<open>play\<close> methods and raises \<open>OSError\<close> for a path the system refuses to look up (a name
  that is too long, a directory that may not be searched). \<open>import simpleaudio\<close> is guarded
  for \<open>ImportError\<close> only and \<open>subprocess.run\<close> for \<open>TimeoutExpired\<close> and
  \<open>FileNotFoundError\<close> only, so that any other exception of theirs escapes too. An
  exception carries its text.
\<close>

datatype exn = NotImplementedError | OSError string | Exception string

section \<open>The outside world\<close>

text \<open>
  Every interaction with the outside world is an event. A function of the model takes the
  history (the events so far) and returns the events it adds, in order. Three events are
  bookkeeping of the orchestrator's own calls, so that call counts and call order can be
  stated: \<open>Attempt\<close> (entry of \<open>_play_with_backends\<close>), \<open>Play_called\<close> and
  \<open>Play_returned\<close>/\<open>Play_raised\<close> (around \<open>backend.play\<close>). The others are calls the
  backends make: \<open>file_path.exists()\<close>, \<open>import simpleaudio\<close>, \<open>subprocess.run\<close> of
  \<open>which afplay\<close>, \<open>asyncio.create_subprocess_exec\<close>, \<open>process.kill()\<close>,
  \<open>process.wait()\<close>, \<open>loop.run_in_executor\<close> of \<open>_play_sync\<close>, and the exit of the
  \<open>with ThreadPoolExecutor()\<close> block (which waits for the worker thread).
\<close>

datatype 'p event =
    Attempt 'p
  | Play_called string 'p real int
  | Play_returned string PlaybackResult
  | Play_raised string exn
  | Path_exists 'p
  | Import_simpleaudio
  | Run_which_afplay
  | Create_subprocess_exec "string list"
  | Process_kill
  | Process_wait
  | Run_in_executor 'p real
  | Executor_exit

text \<open>
  What \<open>subprocess.run(["which", "afplay"], timeout=5)\<close> does: it completes with a return
  code, or raises one of the two exceptions that are caught, or another one.
\<close>

datatype run_outcome = Run_completed int | Run_timeout_expired | Run_file_not_found | Run_raised exn

text \<open>What \<open>import simpleaudio\<close> does: it succeeds, raises \<open>ImportError\<close>, or raises another exception.\<close>

datatype import_outcome = Imported | Import_error | Import_raised exn

text \<open>
  What the \<open>afplay\<close> subprocess does under \<open>asyncio.wait_for(process.communicate(), timeout)\<close>:
  it ends with a return code and its (decoded) standard error, or the wait times out, or
  some \<open>Exception\<close> is raised inside the \<open>try\<close> block (its \<open>str\<close> is kept).
\<close>

datatype proc_outcome = Completed int string | Timed_out | Raised string

text \<open>
  What \<open>asyncio.wait_for(loop.run_in_executor(executor, self._play_sync, ...), timeout)\<close>
  does: the worker finishes in time, or the wait times out, or some other \<open>Exception\<close> is
  raised.
\<close>

datatype wait_outcome = Finished | Wait_timed_out | Wait_raised string

text \<open>
  The environment answers each interaction; an answer may depend on the whole history, so
  the file system and the mechanisms may change between attempts. \<open>file_exists\<close> is
  \<open>file_path.exists()\<close>: a truth value, or the exception it raises. \<open>process_kill\<close> is
  \<open>process.kill()\<close> after a timeout: it returns, or raises an \<open>Exception\<close> (the process
  is gone already) whose text is given. \<open>Path\<close>, \<open>str\<close> of a path, an int and a float
  are the library's and are parameters too.
\<close>

record 'p env =
  Path :: "string \<Rightarrow> 'p"
  str_path :: "'p \<Rightarrow> string"
  str_int :: "int \<Rightarrow> string"
  str_float :: "real \<Rightarrow> string"
  platform :: string
  which_afplay :: "'p event list \<Rightarrow> run_outcome"
  file_exists :: "'p event list \<Rightarrow> 'p \<Rightarrow> exn + bool"
  import_simpleaudio :: "'p event list \<Rightarrow> import_outcome"
  afplay_proc :: "'p event list \<Rightarrow> string list \<Rightarrow> int \<Rightarrow> proc_outcome"
  process_kill :: "'p event list \<Rightarrow> string option"
  executor_wait :: "'p event list \<Rightarrow> 'p \<Rightarrow> real \<Rightarrow> int \<Rightarrow> wait_outcome"
  wave_play :: "'p event list \<Rightarrow> 'p \<Rightarrow> string option"

section \<open>Backends (audio\_player.py, lines 41--215)\<close>

text \<open>
  The three classes. \<open>AudioBackend\<close> is the base class with its name; \<open>AFPlayBackend\<close> is
  named \<open>afplay\<close>; \<open>SimpleAudioBackend\<close> is named \<open>simpleaudio\<close> and carries whether its
  attribute \<open>_simpleaudio\<close> holds the imported module.
\<close>

datatype backend = AudioBackend string | AFPlayBackend | SimpleAudioBackend bool

fun name :: "backend \<Rightarrow> string" where
  "name (AudioBackend n) = n"
| "name AFPlayBackend = ''afplay''"
| "name (SimpleAudioBackend loaded) = ''simpleaudio''"

text \<open>\<open>is_available\<close>: the answer (or the exception), the backend after the call, the events.\<close>

fun is_available :: "'p env \<Rightarrow> backend \<Rightarrow> 'p event list \<Rightarrow> (exn + bool) \<times> backend \<times> 'p event list" where
  "is_available E (AudioBackend n) t = (Inl NotImplementedError, AudioBackend n, [])"
| "is_available E AFPlayBackend t =
     (if platform E \<noteq> ''darwin'' then (Inr False, AFPlayBackend, [])
      else (case which_afplay E t of
              Run_completed rc \<Rightarrow> (Inr (rc = 0), AFPlayBackend, [Run_which_afplay])
            | Run_timeout_expired \<Rightarrow> (Inr False, AFPlayBackend, [Run_which_afplay])
            | Run_file_not_found \<Rightarrow> (Inr False, AFPlayBackend, [Run_which_afplay])
            | Run_raised e \<Rightarrow> (Inl e, AFPlayBackend, [Run_which_afplay])))"
| "is_available E (SimpleAudioBackend loaded) t =
     (case import_simpleaudio E t of
        Imported \<Rightarrow> (Inr True, SimpleAudioBackend True, [Import_simpleaudio])
      | Import_error \<Rightarrow> (Inr False, SimpleAudioBackend loaded, [Import_simpleaudio])
      | Import_raised e \<Rightarrow> (Inl e, SimpleAudioBackend loaded, [Import_simpleaudio]))"

text \<open>
  \<open>AFPlayBackend.play\<close> (lines 78--137). The existence check (line 80) is outside the
  \<open>try\<close>: what it raises escapes. Everything after it is inside: an exception there,
  also one of \<open>process.kill()\<close> in the timeout handler, ends in the result of lines
  131--137.
\<close>

definition afplay_cmd :: "'p env \<Rightarrow> 'p \<Rightarrow> real \<Rightarrow> string list" where
  "afplay_cmd E file_path volume =
     [''afplay''] @ (if volume \<noteq> 1 then [''-v'', str_float E volume] else []) @ [str_path E file_path]"

definition afplay_play ::
  "'p env \<Rightarrow> 'p \<Rightarrow> real \<Rightarrow> int \<Rightarrow> 'p event list \<Rightarrow> (exn + PlaybackResult) \<times> 'p event list" where
  "afplay_play E file_path volume timeout t =
     (case file_exists E t file_path of
        Inl e \<Rightarrow> (Inl e, [Path_exists file_path])
      | Inr found \<Rightarrow>
          if \<not> found
          then (Inr (mk_result FILE_NOT_FOUND (''Audio file not found: '' @ str_path E file_path)
                       (Some ''afplay'')),
                [Path_exists file_path])
          else
            (let cmd = afplay_cmd E file_path volume;
                 ev = [Path_exists file_path, Create_subprocess_exec cmd] in
             case afplay_proc E (t @ [Path_exists file_path]) cmd timeout of
               Timed_out \<Rightarrow>
                 (case process_kill E (t @ ev) of
                    None \<Rightarrow>
                      (Inr (mk_result TIMEOUT
                              (''Audio playback timed out after '' @ str_int E timeout @ '' seconds'')
                              (Some ''afplay'')),
                       ev @ [Process_kill, Process_wait])
                  | Some e \<Rightarrow>
                      (Inr (mk_result FAILED (''afplay error: '' @ e) (Some ''afplay'')),
                       ev @ [Process_kill]))
             | Completed returncode stderr \<Rightarrow>
                 (if returncode = 0
                  then (Inr (mk_result SUCCESS ''Audio played successfully'' (Some ''afplay'')), ev)
                  else (Inr (mk_result FAILED
                               (''afplay failed: '' @
                                  (if stderr \<noteq> [] then stderr else ''Unknown afplay error''))
                               (Some ''afplay'')),
                        ev))
             | Raised e \<Rightarrow>
                 (Inr (mk_result FAILED (''afplay error: '' @ e) (Some ''afplay'')), ev)))"

text \<open>\<open>SimpleAudioBackend._play_sync\<close> (lines 197--215): the library plays or raises.\<close>

definition play_sync :: "'p env \<Rightarrow> 'p \<Rightarrow> real \<Rightarrow> 'p event list \<Rightarrow> PlaybackResult" where
  "play_sync E file_path volume t =
     (case wave_play E t file_path of
        None \<Rightarrow> mk_result SUCCESS ''Audio played successfully'' (Some ''simpleaudio'')
      | Some e \<Rightarrow> mk_result FAILED (''simpleaudio playback error: '' @ e) (Some ''simpleaudio''))"

text \<open>
  \<open>SimpleAudioBackend.play\<close> (lines 156--195). The availability check comes before the
  existence check; a successful import sets \<open>_simpleaudio\<close>. Both checks are outside the
  \<open>try\<close>: what they raise escapes.
\<close>

definition simpleaudio_play ::
  "'p env \<Rightarrow> bool \<Rightarrow> 'p \<Rightarrow> real \<Rightarrow> int \<Rightarrow> 'p event list
   \<Rightarrow> (exn + PlaybackResult) \<times> backend \<times> 'p event list" where
  "simpleaudio_play E loaded file_path volume timeout t =
     (let (avail, b, ev0) =
            (if \<not> loaded then is_available E (SimpleAudioBackend loaded) t
             else (Inr True, SimpleAudioBackend loaded, []))
      in case avail of
           Inl e \<Rightarrow> (Inl e, b, ev0)
         | Inr available \<Rightarrow>
             if \<not> available
             then (Inr (mk_result FAILED ''simpleaudio not available'' (Some ''simpleaudio'')), b, ev0)
             else
               (case file_exists E (t @ ev0) file_path of
                  Inl e \<Rightarrow> (Inl e, b, ev0 @ [Path_exists file_path])
                | Inr found \<Rightarrow>
                    if \<not> found
                    then (Inr (mk_result FILE_NOT_FOUND
                                 (''Audio file not found: '' @ str_path E file_path)
                                 (Some ''simpleaudio'')),
                          b, ev0 @ [Path_exists file_path])
                    else
                      (let ev1 = ev0 @ [Path_exists file_path, Run_in_executor file_path volume] in
                       case executor_wait E (t @ ev1) file_path volume timeout of
                         Finished \<Rightarrow>
                           (Inr (play_sync E file_path volume (t @ ev1)), b, ev1 @ [Executor_exit])
                       | Wait_timed_out \<Rightarrow>
                           (Inr (mk_result TIMEOUT
                                   (''Audio playback timed out after '' @ str_int E timeout @
                                    '' seconds'')
                                   (Some ''simpleaudio'')),
                            b, ev1 @ [Executor_exit])
                       | Wait_raised e \<Rightarrow>
                           (Inr (mk_result FAILED (''simpleaudio error: '' @ e) (Some ''simpleaudio'')),
                            b, ev1 @ [Executor_exit]))))"

text \<open>\<open>backend.play(file_path, volume, timeout)\<close>, dispatched on the class.\<close>

fun play ::
  "'p env \<Rightarrow> backend \<Rightarrow> 'p \<Rightarrow> real \<Rightarrow> int \<Rightarrow> 'p event list \<Rightarrow> (exn + PlaybackResult) \<times> backend \<times> 'p event list" where
  "play E (AudioBackend n) file_path volume timeout t = (Inl NotImplementedError, AudioBackend n, [])"
| "play E AFPlayBackend file_path volume timeout t =
     (case afplay_play E file_path volume timeout t of (x, ev) \<Rightarrow> (x, AFPlayBackend, ev))"
| "play E (SimpleAudioBackend loaded) file_path volume timeout t =
     simpleaudio_play E loaded file_path volume timeout t"

section \<open>The player (audio\_player.py, lines 218--328)\<close>

text \<open>
  The configuration object is built elsewhere; the player reads four of its fields.
\<close>

record ServerConfig =
  custom_sound_path :: "string option"
  enable_fallback :: bool
  volume_level :: real
  playback_timeout_seconds :: int

record 'p AudioPlayer =
  config :: ServerConfig
  backends :: "backend list"
  default_sound_path :: 'p

text \<open>Python's truth value of an \<open>Optional[str]\<close>: neither \<open>None\<close> nor empty.\<close>

fun truthy :: "string option \<Rightarrow> bool" where
  "truthy None = False"
| "truthy (Some s) = (s \<noteq> [])"

text \<open>
  \<open>_setup_backends\<close> (lines 230--245): probe \<open>afplay\<close>, then \<open>simpleaudio\<close>, and keep the
  available ones in that order.
\<close>

definition setup_backends :: "'p env \<Rightarrow> 'p event list \<Rightarrow> (exn + backend list) \<times> 'p event list" where
  "setup_backends E t =
     (case is_available E AFPlayBackend t of
        (Inl e, afplay, ev1) \<Rightarrow> (Inl e, ev1)
      | (Inr a1, afplay, ev1) \<Rightarrow>
          (let bs1 = (if a1 then [afplay] else []) in
           case is_available E (SimpleAudioBackend False) (t @ ev1) of
             (Inl e, simpleaudio, ev2) \<Rightarrow> (Inl e, ev1 @ ev2)
           | (Inr a2, simpleaudio, ev2) \<Rightarrow>
               (Inr (bs1 @ (if a2 then [simpleaudio] else [])), ev1 @ ev2)))"

text \<open>
  The loop of \<open>_play_with_backends\<close> (lines 309--328), with \<open>last_result\<close> as an argument.
  The backends it has called are returned as they are after the call.
\<close>

fun backends_loop ::
  "'p env \<Rightarrow> ServerConfig \<Rightarrow> backend list \<Rightarrow> 'p \<Rightarrow> PlaybackResult option \<Rightarrow> 'p event list
   \<Rightarrow> (exn + PlaybackResult) \<times> backend list \<times> 'p event list" where
  "backends_loop E cfg [] file_path last_result t =
     (Inr (case last_result of
             Some r \<Rightarrow> r
           | None \<Rightarrow> mk_result FAILED ''All audio backends failed'' None),
      [], [])"
| "backends_loop E cfg (b # bs) file_path last_result t =
     (let c = Play_called (name b) file_path (volume_level cfg) (playback_timeout_seconds cfg) in
      case play E b file_path (volume_level cfg) (playback_timeout_seconds cfg) (t @ [c]) of
        (Inl e, b', ev) \<Rightarrow> (Inl e, b' # bs, c # ev @ [Play_raised (name b) e])
      | (Inr result, b', ev) \<Rightarrow>
          (let ev1 = c # ev @ [Play_returned (name b) result] in
           if status result = SUCCESS then (Inr result, b' # bs, ev1)
           else (case backends_loop E cfg bs file_path (Some result) (t @ ev1) of
                   (x, bs', ev2) \<Rightarrow> (x, b' # bs', ev1 @ ev2))))"

text \<open>\<open>_play_with_backends\<close> (lines 301--328).\<close>

definition play_with_backends ::
  "'p env \<Rightarrow> 'p AudioPlayer \<Rightarrow> 'p \<Rightarrow> 'p event list
   \<Rightarrow> (exn + PlaybackResult) \<times> 'p AudioPlayer \<times> 'p event list" where
  "play_with_backends E self file_path t =
     (if backends self = []
      then (Inr (mk_result FAILED ''No audio backends available'' None), self, [Attempt file_path])
      else (case backends_loop E (config self) (backends self) file_path None (t @ [Attempt file_path]) of
              (x, bs', ev) \<Rightarrow> (x, self\<lparr>backends := bs'\<rparr>, Attempt file_path # ev)))"

text \<open>
  Lines 268--277 of \<open>play_notification\<close>: which file to play, and whether it counts as
  custom.
\<close>

definition determine_audio :: "'p env \<Rightarrow> 'p AudioPlayer \<Rightarrow> string option \<Rightarrow> 'p \<times> bool" where
  "determine_audio E self custom_path =
     (if truthy custom_path \<and> truthy (custom_sound_path (config self))
      then (Path E (the (custom_sound_path (config self))), True)
      else if truthy custom_path
      then (Path E (the custom_path), True)
      else (default_sound_path self, False))"

text \<open>Lines 285--288: the condition under which the default sound is tried as well.\<close>

definition fallback_condition :: "'p AudioPlayer \<Rightarrow> PlaybackResult \<Rightarrow> 'p \<Rightarrow> bool \<Rightarrow> bool" where
  "fallback_condition self result audio_path use_custom =
     (status result \<noteq> SUCCESS \<and> use_custom \<and> enable_fallback (config self) \<and>
      audio_path \<noteq> default_sound_path self)"

text \<open>\<open>play_notification\<close> (lines 258--299).\<close>

definition play_notification ::
  "'p env \<Rightarrow> 'p AudioPlayer \<Rightarrow> string option \<Rightarrow> 'p event list
   \<Rightarrow> (exn + PlaybackResult) \<times> 'p AudioPlayer \<times> 'p event list" where
  "play_notification E self custom_path t =
     (case determine_audio E self custom_path of
        (audio_path, use_custom) \<Rightarrow>
          (case play_with_backends E self audio_path t of
             (Inl e, self1, ev1) \<Rightarrow> (Inl e, self1, ev1)
           | (Inr result, self1, ev1) \<Rightarrow>
               if fallback_condition self1 result audio_path use_custom
               then (case play_with_backends E self1 (default_sound_path self1) (t @ ev1) of
                       (Inl e, self2, ev2) \<Rightarrow> (Inl e, self2, ev1 @ ev2)
                     | (Inr fallback_result, self2, ev2) \<Rightarrow>
                         if status fallback_result = SUCCESS
                         then (Inr (fallback_result
                                      \<lparr>fallback_used := True,
                                       status := FALLBACK_USED,
                                       message := ''Custom audio failed, used fallback: '' @ message result\<rparr>),
                               self2, ev1 @ ev2)
                         else (Inr result, self2, ev1 @ ev2))
               else (Inr result, self1, ev1)))"

section \<open>Observing a run\<close>

text \<open>The backend calls of a run, in order: the backend's name and the file it was given.\<close>

fun calls_of :: "'p event list \<Rightarrow> (string \<times> 'p) list" where
  "calls_of [] = []"
| "calls_of (Play_called n p v to # es) = (n, p) # calls_of es"
| "calls_of (e # es) = calls_of es"

text \<open>The results the backends returned, in order, each with the backend's name.\<close>

fun returns_of :: "'p event list \<Rightarrow> (string \<times> PlaybackResult) list" where
  "returns_of [] = []"
| "returns_of (Play_returned n r # es) = (n, r) # returns_of es"
| "returns_of (e # es) = returns_of es"

text \<open>The files \<open>_play_with_backends\<close> was entered with, in order.\<close>

fun attempts_of :: "'p event list \<Rightarrow> 'p list" where
  "attempts_of [] = []"
| "attempts_of (Attempt p # es) = p # attempts_of es"
| "attempts_of (e # es) = attempts_of es"

text \<open>An interaction with the outside world, as opposed to the orchestrator's bookkeeping.\<close>

fun is_interaction :: "'p event \<Rightarrow> bool" where
  "is_interaction (Attempt p) = False"
| "is_interaction (Play_called n p v to) = False"
| "is_interaction (Play_returned n r) = False"
| "is_interaction (Play_raised n e) = False"
| "is_interaction e = True"

text \<open>The playback mechanism is started: the subprocess is spawned or the worker submitted.\<close>

fun starts_mechanism :: "'p event \<Rightarrow> bool" where
  "starts_mechanism (Create_subprocess_exec cmd) = True"
| "starts_mechanism (Run_in_executor p v) = True"
| "starts_mechanism e = False"


text \<open>The two classes that \<open>_setup_backends\<close> instantiates.\<close>

fun is_concrete :: "backend \<Rightarrow> bool" where
  "is_concrete (AudioBackend n) = False"
| "is_concrete AFPlayBackend = True"
| "is_concrete (SimpleAudioBackend loaded) = True"

section \<open>A sample host\<close>

text \<open>
  A macOS host with both mechanisms, paths as plain strings. \<open>/missing.wav\<close> does not
  exist, \<open>afplay\<close> rejects \<open>/bad.wav\<close> and \<open>/odd.wav\<close> and hangs on \<open>/long.wav\<close>, the
  \<open>simpleaudio\<close> library cannot decode \<open>/bad.wav\<close> and does not finish \<open>/long.wav\<close> in
  time.
\<close>

definition sample_env :: "string env" where
  "sample_env =
     \<lparr>Path = (\<lambda>s. s),
      str_path = (\<lambda>p. p),
      str_int = (\<lambda>i. if i = 30 then ''30'' else ''1''),
      str_float = (\<lambda>v. if v = 2 then ''2.0'' else ''0.5''),
      platform = ''darwin'',
      which_afplay = (\<lambda>t. Run_completed 0),
      file_exists = (\<lambda>t p. Inr (p \<noteq> ''/missing.wav'')),
      import_simpleaudio = (\<lambda>t. Imported),
      afplay_proc = (\<lambda>t cmd timeout.
         if last cmd = ''/bad.wav'' \<or> last cmd = ''/odd.wav''
         then Completed 1 ''Error: AudioFileOpen failed''
         else if last cmd = ''/long.wav'' then Timed_out
         else Completed 0 []),
      process_kill = (\<lambda>t. None),
      executor_wait = (\<lambda>t p v timeout. if p = ''/long.wav'' then Wait_timed_out else Finished),
      wave_play = (\<lambda>t p. if p = ''/bad.wav'' then Some ''not a WAVE file'' else None)\<rparr>"

text \<open>A host on which \<open>simpleaudio\<close> is not installed.\<close>

definition bare_env :: "string env" where
  "bare_env = sample_env\<lparr>platform := ''linux'', import_simpleaudio := (\<lambda>t. Import_error)\<rparr>"

text \<open>
  A host that refuses to look up \<open>/name-too-long.wav\<close> (a file name beyond the limit of
  the file system): \<open>exists()\<close> raises \<open>OSError\<close>.
\<close>

definition strict_env :: "string env" where
  "strict_env =
     sample_env\<lparr>file_exists := (\<lambda>t p.
        if p = ''/name-too-long.wav'' then Inl (OSError ''[Errno 36] File name too long'')
        else Inr (p \<noteq> ''/missing.wav''))\<rparr>"

definition sample_config :: ServerConfig where
  "sample_config =
     \<lparr>custom_sound_path = None, enable_fallback = True, volume_level = 1,
      playback_timeout_seconds = 30\<rparr>"

definition sample_player :: "string AudioPlayer" where
  "sample_player =
     \<lparr>config = sample_config,
      backends = [AFPlayBackend, SimpleAudioBackend True],
      default_sound_path = ''/pkg/assets/notification.wav''\<rparr>"

section \<open>Lemmas on runs\<close>

lemma calls_of_append [simp]: "calls_of (xs @ ys) = calls_of xs @ calls_of ys"
  by (induction xs rule: calls_of.induct) simp_all

lemma returns_of_append [simp]: "returns_of (xs @ ys) = returns_of xs @ returns_of ys"
  by (induction xs rule: returns_of.induct) simp_all

lemma attempts_of_append [simp]: "attempts_of (xs @ ys) = attempts_of xs @ attempts_of ys"
  by (induction xs rule: attempts_of.induct) simp_all

lemma interaction_calls [simp]: "list_all is_interaction ev \<Longrightarrow> calls_of ev = []"
  by (induction ev rule: calls_of.induct) simp_all

lemma interaction_returns [simp]: "list_all is_interaction ev \<Longrightarrow> returns_of ev = []"
  by (induction ev rule: returns_of.induct) simp_all

lemma interaction_attempts [simp]: "list_all is_interaction ev \<Longrightarrow> attempts_of ev = []"
  by (induction ev rule: attempts_of.induct) simp_all

lemma afplay_play_interaction: "list_all is_interaction (snd (afplay_play E fp v to t))"
  by (simp add: afplay_play_def Let_def split: proc_outcome.splits sum.splits option.splits)

lemma simpleaudio_play_interaction:
  "list_all is_interaction (snd (snd (simpleaudio_play E l fp v to t)))"
  by (simp add: simpleaudio_play_def Let_def
        split: wait_outcome.splits sum.splits import_outcome.splits)

lemma play_interaction: "list_all is_interaction (snd (snd (play E b fp v to t)))"
  by (cases b) (simp_all add: split_beta afplay_play_interaction simpleaudio_play_interaction)

lemma play_no_bookkeeping:
  assumes "play E b fp v to t = (x, b', ev)"
  shows "calls_of ev = []" and "returns_of ev = []" and "attempts_of ev = []"
  using play_interaction[of E b fp v to t] assms by simp_all

text \<open>The loop never enters \<open>_play_with_backends\<close> again.\<close>

lemma loop_attempts:
  "backends_loop E cfg bs fp lr t = (x, bs', ev) \<Longrightarrow> attempts_of ev = []"
proof (induction bs arbitrary: lr t x bs' ev)
  case Nil
  then show ?case by simp
next
  case (Cons b bs)
  obtain y b' e0 where p: "play E b fp (volume_level cfg) (playback_timeout_seconds cfg)
      (t @ [Play_called (name b) fp (volume_level cfg) (playback_timeout_seconds cfg)]) = (y, b', e0)"
    by (cases "play E b fp (volume_level cfg) (playback_timeout_seconds cfg)
      (t @ [Play_called (name b) fp (volume_level cfg) (playback_timeout_seconds cfg)])") auto
  note i = play_no_bookkeeping[OF p]
  show ?case
  proof (cases y)
    case (Inl e)
    with Cons.prems p i show ?thesis by (auto simp: Let_def)
  next
    case (Inr r)
    show ?thesis
    proof (cases "status r = SUCCESS")
      case True
      with Cons.prems p i Inr show ?thesis by (auto simp: Let_def)
    next
      case False
      with Cons.prems p i Inr show ?thesis
        by (auto simp: Let_def split: prod.splits dest: Cons.IH)
    qed
  qed
qed

text \<open>
  The loop calls the backends in list order, one result per backend; a successful result
  is the last event of the run and is what the loop returns; and when no backend succeeds
  or raises, every backend has been called.
\<close>

lemma loop_order:
  "backends_loop E cfg bs fp lr t = (x, bs', ev) \<Longrightarrow>
     prefix (calls_of ev) (map (\<lambda>b. (name b, fp)) bs) \<and>
     map fst (returns_of ev) = map name (take (length (returns_of ev)) bs) \<and>
     (\<forall>i<length (returns_of ev). status (snd (returns_of ev ! i)) = SUCCESS \<longrightarrow>
        Suc i = length (returns_of ev) \<and> length (calls_of ev) = Suc i \<and>
        x = Inr (snd (returns_of ev ! i)) \<and>
        last ev = Play_returned (fst (returns_of ev ! i)) (snd (returns_of ev ! i))) \<and>
     (\<not> isl x \<and> (\<forall>nr \<in> set (returns_of ev). status (snd nr) \<noteq> SUCCESS) \<longrightarrow>
        calls_of ev = map (\<lambda>b. (name b, fp)) bs)"
proof (induction bs arbitrary: lr t x bs' ev)
  case Nil
  then show ?case by simp
next
  case (Cons b bs)
  obtain y b' e0 where p: "play E b fp (volume_level cfg) (playback_timeout_seconds cfg)
      (t @ [Play_called (name b) fp (volume_level cfg) (playback_timeout_seconds cfg)]) = (y, b', e0)"
    by (cases "play E b fp (volume_level cfg) (playback_timeout_seconds cfg)
      (t @ [Play_called (name b) fp (volume_level cfg) (playback_timeout_seconds cfg)])") auto
  note i = play_no_bookkeeping[OF p]
  show ?case
  proof (cases y)
    case (Inl e)
    with Cons.prems p i show ?thesis by (auto simp: Let_def)
  next
    case (Inr r)
    show ?thesis
    proof (cases "status r = SUCCESS")
      case True
      with Cons.prems p i Inr show ?thesis by (auto simp: Let_def)
    next
      case False
      let ?c = "Play_called (name b) fp (volume_level cfg) (playback_timeout_seconds cfg)"
      let ?ev1 = "?c # e0 @ [Play_returned (name b) r]"
      obtain x2 bs2 ev2 where l: "backends_loop E cfg bs fp (Some r) (t @ ?ev1) = (x2, bs2, ev2)"
        by (cases "backends_loop E cfg bs fp (Some r) (t @ ?ev1)") auto
      note IH = Cons.IH[OF l]
      have ev: "ev = ?ev1 @ ev2" and x: "x = x2"
        using Cons.prems p Inr False l by (auto simp: Let_def)
      have c: "calls_of ev = (name b, fp) # calls_of ev2"
        and r: "returns_of ev = (name b, r) # returns_of ev2"
        using ev i by simp_all
      have A: "prefix (calls_of ev) (map (\<lambda>b. (name b, fp)) (b # bs))"
        using IH c by simp
      have B: "map fst (returns_of ev) = map name (take (length (returns_of ev)) (b # bs))"
        using IH r by simp
      have C: "status (snd (returns_of ev ! i)) = SUCCESS \<longrightarrow>
            Suc i = length (returns_of ev) \<and> length (calls_of ev) = Suc i \<and>
            x = Inr (snd (returns_of ev ! i)) \<and>
            last ev = Play_returned (fst (returns_of ev ! i)) (snd (returns_of ev ! i))"
        if "i < length (returns_of ev)" for i
      proof (cases i)
        case 0
        then show ?thesis using r False by simp
      next
        case (Suc j)
        with that r have j: "j < length (returns_of ev2)" by simp
        then have ne: "ev2 \<noteq> []" by auto
        from IH j have "status (snd (returns_of ev2 ! j)) = SUCCESS \<longrightarrow>
            Suc j = length (returns_of ev2) \<and> length (calls_of ev2) = Suc j \<and>
            x2 = Inr (snd (returns_of ev2 ! j)) \<and>
            last ev2 = Play_returned (fst (returns_of ev2 ! j)) (snd (returns_of ev2 ! j))"
          by blast
        moreover have "returns_of ev ! i = returns_of ev2 ! j"
          and "Suc i = length (returns_of ev) \<longleftrightarrow> Suc j = length (returns_of ev2)"
          and "length (calls_of ev) = Suc i \<longleftrightarrow> length (calls_of ev2) = Suc j"
          and "last ev = last ev2"
          using Suc r c ne ev by simp_all
        ultimately show ?thesis using x by metis
      qed
      have D: "\<not> isl x \<and> (\<forall>nr \<in> set (returns_of ev). status (snd nr) \<noteq> SUCCESS) \<longrightarrow>
            calls_of ev = map (\<lambda>b. (name b, fp)) (b # bs)"
        using IH c r x by simp
      from A B C D show ?thesis by blast
    qed
  qed
qed

lemma pwb_unfold:
  assumes "play_with_backends E self fp t = (x, self', ev)"
  shows "(backends self = [] \<and> x = Inr (mk_result FAILED ''No audio backends available'' None) \<and>
            self' = self \<and> ev = [Attempt fp]) \<or>
         (backends self \<noteq> [] \<and> (\<exists>bs' ev0.
            backends_loop E (config self) (backends self) fp None (t @ [Attempt fp]) = (x, bs', ev0) \<and>
            self' = self\<lparr>backends := bs'\<rparr> \<and> ev = Attempt fp # ev0))"
  using assms by (auto simp: play_with_backends_def split: if_splits prod.splits)

lemma pwb_fields:
  assumes "play_with_backends E self fp t = (x, self', ev)"
  shows "config self' = config self" and "default_sound_path self' = default_sound_path self"
  using pwb_unfold[OF assms] by auto

lemma pwb_attempts:
  assumes "play_with_backends E self fp t = (x, self', ev)"
  shows "attempts_of ev = [fp]"
  using pwb_unfold[OF assms] by (auto dest: loop_attempts)

lemma pwb_order:
  assumes "play_with_backends E self fp t = (x, self', ev)"
  shows "prefix (calls_of ev) (map (\<lambda>b. (name b, fp)) (backends self)) \<and>
     map fst (returns_of ev) = map name (take (length (returns_of ev)) (backends self)) \<and>
     (\<forall>i<length (returns_of ev). status (snd (returns_of ev ! i)) = SUCCESS \<longrightarrow>
        Suc i = length (returns_of ev) \<and> length (calls_of ev) = Suc i \<and>
        x = Inr (snd (returns_of ev ! i)) \<and>
        last ev = Play_returned (fst (returns_of ev ! i)) (snd (returns_of ev ! i))) \<and>
     (\<not> isl x \<and> (\<forall>nr \<in> set (returns_of ev). status (snd nr) \<noteq> SUCCESS) \<longrightarrow>
        calls_of ev = map (\<lambda>b. (name b, fp)) (backends self))"
proof -
  from pwb_unfold[OF assms] show ?thesis
  proof
    assume "backends self = [] \<and> x = Inr (mk_result FAILED ''No audio backends available'' None) \<and>
            self' = self \<and> ev = [Attempt fp]"
    then show ?thesis by simp
  next
    assume "backends self \<noteq> [] \<and> (\<exists>bs' ev0.
            backends_loop E (config self) (backends self) fp None (t @ [Attempt fp]) = (x, bs', ev0) \<and>
            self' = self\<lparr>backends := bs'\<rparr> \<and> ev = Attempt fp # ev0)"
    then obtain bs' ev0 where
      l: "backends_loop E (config self) (backends self) fp None (t @ [Attempt fp]) = (x, bs', ev0)"
      and ev: "ev = Attempt fp # ev0" by blast
    note L = loop_order[OF l]
    have c: "calls_of ev = calls_of ev0" and r: "returns_of ev = returns_of ev0"
      using ev by simp_all
    have "last ev = last ev0" if "i < length (returns_of ev0)" for i
    proof -
      from that have "ev0 \<noteq> []" by auto
      then show ?thesis using ev by simp
    qed
    with L show ?thesis unfolding c r by metis
  qed
qed

lemma pwb_calls_path:
  assumes "play_with_backends E self fp t = (x, self', ev)" and "(n, p) \<in> set (calls_of ev)"
  shows "p = fp"
proof -
  from pwb_order[OF assms(1)]
  have "set (calls_of ev) \<subseteq> set (map (\<lambda>b. (name b, fp)) (backends self))"
    by (blast dest: set_mono_prefix)
  with assms(2) show ?thesis by auto
qed

lemma attempts_of_mem: "p \<in> set (attempts_of ev) \<longleftrightarrow> Attempt p \<in> set ev"
proof (induction ev)
  case Nil
  show ?case by simp
next
  case (Cons e es)
  then show ?case by (cases e) simp_all
qed

lemma fallback_condition_fields:
  "config self1 = config self \<Longrightarrow> default_sound_path self1 = default_sound_path self \<Longrightarrow>
   fallback_condition self1 r a u = fallback_condition self r a u"
  by (simp add: fallback_condition_def)

lemma pn_unfold:
  assumes det: "determine_audio E self cp = (audio_path, use_custom)"
    and p1: "play_with_backends E self audio_path t = (x1, self1, ev1)"
  shows "play_notification E self cp t =
    (case x1 of
       Inl e \<Rightarrow> (Inl e, self1, ev1)
     | Inr result \<Rightarrow>
         if fallback_condition self result audio_path use_custom
         then (case play_with_backends E self1 (default_sound_path self) (t @ ev1) of
                 (Inl e, self2, ev2) \<Rightarrow> (Inl e, self2, ev1 @ ev2)
               | (Inr fallback_result, self2, ev2) \<Rightarrow>
                   if status fallback_result = SUCCESS
                   then (Inr (fallback_result
                                \<lparr>fallback_used := True,
                                 status := FALLBACK_USED,
                                 message := ''Custom audio failed, used fallback: '' @ message result\<rparr>),
                         self2, ev1 @ ev2)
                   else (Inr result, self2, ev1 @ ev2))
         else (Inr result, self1, ev1))"
proof -
  have d: "default_sound_path self1 = default_sound_path self"
    using pwb_fields[OF p1] by simp
  have fc: "fallback_condition self1 r audio_path use_custom
            = fallback_condition self r audio_path use_custom" for r
    using pwb_fields[OF p1] by (simp add: fallback_condition_def)
  show ?thesis
    using det p1 by (cases x1) (simp_all add: play_notification_def d fc)
qed

subsection \<open>Runs on the sample host\<close>

lemmas eval_defs = play_with_backends_def sample_env_def sample_player_def sample_config_def
  afplay_play_def afplay_cmd_def simpleaudio_play_def play_sync_def mk_result_def Let_def


lemma det_bad:
  "determine_audio sample_env (sample_player\<lparr>default_sound_path := d\<rparr>) (Some ''/bad.wav'')
     = (''/bad.wav'', True)"
  by (simp add: determine_audio_def sample_env_def sample_player_def sample_config_def)

lemma run_bad:
  "play_with_backends sample_env (sample_player\<lparr>default_sound_path := d\<rparr>) ''/bad.wav'' t =
     (Inr (mk_result FAILED ''simpleaudio playback error: not a WAVE file'' (Some ''simpleaudio'')),
      sample_player\<lparr>default_sound_path := d\<rparr>,
      [Attempt ''/bad.wav'',
       Play_called ''afplay'' ''/bad.wav'' 1 30, Path_exists ''/bad.wav'',
       Create_subprocess_exec [''afplay'', ''/bad.wav''],
       Play_returned ''afplay''
         (mk_result FAILED ''afplay failed: Error: AudioFileOpen failed'' (Some ''afplay'')),
       Play_called ''simpleaudio'' ''/bad.wav'' 1 30, Path_exists ''/bad.wav'',
       Run_in_executor ''/bad.wav'' 1, Executor_exit,
       Play_returned ''simpleaudio''
         (mk_result FAILED ''simpleaudio playback error: not a WAVE file'' (Some ''simpleaudio''))])"
  by (simp add: eval_defs)

lemma run_default:
  "play_with_backends sample_env (sample_player\<lparr>default_sound_path := d\<rparr>)
       ''/pkg/assets/notification.wav'' t =
     (Inr (mk_result SUCCESS ''Audio played successfully'' (Some ''afplay'')),
      sample_player\<lparr>default_sound_path := d\<rparr>,
      [Attempt ''/pkg/assets/notification.wav'',
       Play_called ''afplay'' ''/pkg/assets/notification.wav'' 1 30,
       Path_exists ''/pkg/assets/notification.wav'',
       Create_subprocess_exec [''afplay'', ''/pkg/assets/notification.wav''],
       Play_returned ''afplay'' (mk_result SUCCESS ''Audio played successfully'' (Some ''afplay''))])"
  by (simp add: eval_defs)


lemma sample_player_fields:
  "default_sound_path sample_player = ''/pkg/assets/notification.wav''"
  "enable_fallback (config sample_player)"
  "sample_player\<lparr>default_sound_path := ''/pkg/assets/notification.wav''\<rparr> = sample_player"
  by (simp_all add: sample_player_def sample_config_def)


section \<open>The backend loop\<close>



section \<open>The fallback policy\<close>

text \<open>
  Claim C2. For every call of \<open>play_notification\<close>, a fallback attempt is made if and only
  if the primary attempt returned a result whose status is not \<open>SUCCESS\<close>, the primary
  sound is custom, fallback is enabled in the configuration and the primary sound is not
  the default sound. The fallback attempt is the run of \<open>_play_with_backends\<close> on the
  default sound after the primary attempt: when the four conditions hold, the events of the
  call are those of the primary attempt followed by all those of that run, with its
  backend calls. Otherwise the call returns what the primary attempt returned and does
  nothing more; in particular, with fallback disabled the primary result is returned and,
  the primary sound not being the default one, no backend is called on the default sound.
\<close>

theorem fallback_iff:
  assumes det: "determine_audio E self cp = (audio_path, use_custom)"
    and p1: "play_with_backends E self audio_path t = (x1, self1, ev1)"
    and p2: "play_with_backends E self1 (default_sound_path self) (t @ ev1) = (x2, self2, ev2)"
    and pn: "play_notification E self cp t = (x, self', ev)"
  shows "prefix ev1 ev \<and>
     (Attempt (default_sound_path self) \<in> set (drop (length ev1) ev) \<longleftrightarrow>
        (\<exists>r. x1 = Inr r \<and> status r \<noteq> SUCCESS) \<and> use_custom \<and> enable_fallback (config self) \<and>
        audio_path \<noteq> default_sound_path self) \<and>
     ((\<exists>r. x1 = Inr r \<and> status r \<noteq> SUCCESS) \<and> use_custom \<and> enable_fallback (config self) \<and>
         audio_path \<noteq> default_sound_path self \<longrightarrow>
        ev = ev1 @ ev2 \<and> self' = self2 \<and> attempts_of ev2 = [default_sound_path self] \<and>
        prefix (calls_of ev2) (map (\<lambda>b. (name b, default_sound_path self)) (backends self1))) \<and>
     (\<not> ((\<exists>r. x1 = Inr r \<and> status r \<noteq> SUCCESS) \<and> use_custom \<and> enable_fallback (config self) \<and>
         audio_path \<noteq> default_sound_path self) \<longrightarrow> x = x1 \<and> self' = self1 \<and> ev = ev1) \<and>
     (\<not> enable_fallback (config self) \<longrightarrow>
        x = x1 \<and> ev = ev1 \<and>
        (audio_path \<noteq> default_sound_path self \<longrightarrow>
           default_sound_path self \<notin> snd ` set (calls_of ev)))"
proof (cases x1)
  case (Inl e)
  with pn_unfold[OF det p1] pn have "x = x1" "self' = self1" "ev = ev1" by simp_all
  with Inl pwb_calls_path[OF p1] show ?thesis by auto
next
  case (Inr r)
  show ?thesis
  proof (cases "fallback_condition self r audio_path use_custom")
    case False
    with pn_unfold[OF det p1] pn Inr have "x = x1" "self' = self1" "ev = ev1" by simp_all
    with Inr False pwb_calls_path[OF p1] show ?thesis
      by (auto simp: fallback_condition_def)
  next
    case True
    from pn_unfold[OF det p1] pn Inr True p2 have ev: "ev = ev1 @ ev2" and s: "self' = self2"
      by (auto split: sum.splits if_splits)
    have a: "attempts_of ev2 = [default_sound_path self]"
      by (rule pwb_attempts[OF p2])
    then have m: "Attempt (default_sound_path self) \<in> set ev2"
      using attempts_of_mem[of "default_sound_path self" ev2] by simp
    have c: "prefix (calls_of ev2) (map (\<lambda>b. (name b, default_sound_path self)) (backends self1))"
      using pwb_order[OF p2] by (rule conjunct1)
    from ev s a m c Inr True show ?thesis by (auto simp: fallback_condition_def)
  qed
qed

text \<open>
  On the sample host both backends fail on \<open>/bad.wav\<close>; the registry is then run on the
  default sound, which \<open>afplay\<close> plays.
\<close>

theorem fallback_iff_witness:
  "calls_of (snd (snd (play_notification sample_env sample_player (Some ''/bad.wav'') []))) =
     [(''afplay'', ''/bad.wav''), (''simpleaudio'', ''/bad.wav''),
      (''afplay'', ''/pkg/assets/notification.wav'')]"
proof -
  let ?d = "''/pkg/assets/notification.wav''"
  note det = det_bad[of ?d, unfolded sample_player_fields]
  note p1 = run_bad[of ?d "[]", unfolded sample_player_fields]
  note p2 = run_default[of ?d, unfolded sample_player_fields]
  have c: "(\<exists>r. Inr (mk_result FAILED ''simpleaudio playback error: not a WAVE file''
                       (Some ''simpleaudio'')) = (Inr r :: exn + PlaybackResult) \<and> status r \<noteq> SUCCESS) \<and>
           True \<and> enable_fallback (config sample_player) \<and>
           ''/bad.wav'' \<noteq> default_sound_path sample_player"
    by (simp add: mk_result_def sample_player_fields)
  have p2': "play_with_backends sample_env sample_player (default_sound_path sample_player) ([] @ ev1)
      = (Inr (mk_result SUCCESS ''Audio played successfully'' (Some ''afplay'')), sample_player,
         snd (snd (play_with_backends sample_env sample_player ?d ([] @ ev1))))" for ev1
    by (simp add: sample_player_fields p2)
  obtain x s ev where pn: "play_notification sample_env sample_player (Some ''/bad.wav'') [] = (x, s, ev)"
    by (cases "play_notification sample_env sample_player (Some ''/bad.wav'') []") auto
  note th = fallback_iff[OF det p1 p2' pn]
  note made = th[THEN conjunct2, THEN conjunct2, THEN conjunct1, THEN mp, OF c]
  from made[THEN conjunct1] show ?thesis
    by (simp add: pn p2)
qed

text \<open>
  Claim C3. For every call of \<open>play_notification\<close> in which the primary attempt fails and
  the fallback attempt on the default sound, which is then made, succeeds, the result
  returned has status \<open>FALLBACK_USED\<close>, its flag \<open>fallback_used\<close> is true, and its message
  is \<open>Custom audio failed, used fallback: \<close> followed by the message of the primary
  failure, which it therefore contains; the other fields are those of the fallback result.
\<close>

theorem fallback_success_relabelled:
  assumes det: "determine_audio E self cp = (audio_path, use_custom)"
    and p1: "play_with_backends E self audio_path t = (Inr r1, self1, ev1)"
    and c: "status r1 \<noteq> SUCCESS" "use_custom" "enable_fallback (config self)"
           "audio_path \<noteq> default_sound_path self"
    and p2: "play_with_backends E self1 (default_sound_path self) (t @ ev1) = (Inr r2, self2, ev2)"
    and s: "status r2 = SUCCESS"
  shows "\<exists>r. play_notification E self cp t = (Inr r, self2, ev1 @ ev2) \<and>
           status r = FALLBACK_USED \<and> fallback_used r \<and>
           message r = ''Custom audio failed, used fallback: '' @ message r1 \<and>
           sublist (message r1) (message r) \<and>
           backend_used r = backend_used r2 \<and> duration_ms r = duration_ms r2"
proof -
  let ?r = "r2\<lparr>fallback_used := True, status := FALLBACK_USED,
                 message := ''Custom audio failed, used fallback: '' @ message r1\<rparr>"
  have fc: "fallback_condition self r1 audio_path use_custom"
    using c by (simp add: fallback_condition_def)
  have run: "play_notification E self cp t = (Inr ?r, self2, ev1 @ ev2)"
    using pn_unfold[OF det p1] p2 s fc by simp
  have m: "message ?r = ''Custom audio failed, used fallback: '' @ message r1"
    by simp
  have sub: "sublist (message r1) (message ?r)"
    unfolding m by (rule sublist_append_leftI)
  have rest: "status ?r = FALLBACK_USED" "fallback_used ?r"
    "backend_used ?r = backend_used r2" "duration_ms ?r = duration_ms r2"
    by simp_all
  from run m sub rest show ?thesis by blast
qed

text \<open>
  On the sample host both backends fail on \<open>/bad.wav\<close> and \<open>afplay\<close> plays the default
  sound.
\<close>

theorem fallback_success_relabelled_witness:
  "status (projr (fst (play_notification sample_env sample_player (Some ''/bad.wav'') [])))
     = FALLBACK_USED \<and>
   fallback_used (projr (fst (play_notification sample_env sample_player (Some ''/bad.wav'') []))) \<and>
   message (projr (fst (play_notification sample_env sample_player (Some ''/bad.wav'') [])))
     = ''Custom audio failed, used fallback: simpleaudio playback error: not a WAVE file''"
proof -
  let ?d = "''/pkg/assets/notification.wav''"
  note det = det_bad[of ?d, unfolded sample_player_fields]
  note p1 = run_bad[of ?d "[]", unfolded sample_player_fields]
  note p2 = run_default[of ?d, unfolded sample_player_fields]
  have c: "status (mk_result FAILED ''simpleaudio playback error: not a WAVE file''
                     (Some ''simpleaudio'')) \<noteq> SUCCESS"
    "enable_fallback (config sample_player)"
    "''/bad.wav'' \<noteq> default_sound_path sample_player"
    by (simp_all add: mk_result_def sample_player_fields)
  have s: "status (mk_result SUCCESS ''Audio played successfully'' (Some ''afplay'')) = SUCCESS"
    by (simp add: mk_result_def)
  have p2': "play_with_backends sample_env sample_player (default_sound_path sample_player) ([] @ ev1)
      = (Inr (mk_result SUCCESS ''Audio played successfully'' (Some ''afplay'')), sample_player,
         snd (snd (play_with_backends sample_env sample_player ?d ([] @ ev1))))" for ev1
    by (simp add: sample_player_fields p2)
  from fallback_success_relabelled[OF det p1 c(1) TrueI c(2) c(3) p2' s]
  obtain r where "play_notification sample_env sample_player (Some ''/bad.wav'') [] =
      (Inr r, sample_player, snd (snd (play_with_backends sample_env sample_player ''/bad.wav'' []))
         @ snd (snd (play_with_backends sample_env sample_player ?d
             ([] @ snd (snd (play_with_backends sample_env sample_player ''/bad.wav'' []))))))"
    "status r = FALLBACK_USED" "fallback_used r"
    "message r = ''Custom audio failed, used fallback: '' @
       message (mk_result FAILED ''simpleaudio playback error: not a WAVE file'' (Some ''simpleaudio''))"
    unfolding p1 by auto
  then show ?thesis by (simp add: mk_result_def)
qed



section \<open>Exceptions\<close>















section \<open>The empty registry\<close>

text \<open>
  Claim C6, with the message the code gives. For every call of \<open>play_notification\<close> with
  an empty registry, the call returns, without raising, a result with status \<open>FAILED\<close>
  and the message \<open>No audio backends available\<close>; no backend is called and nothing of the
  outside world is touched, and the player is unchanged.
\<close>

theorem empty_registry:
  assumes "backends self = []"
  shows "\<exists>ev. play_notification E self cp t =
            (Inr (mk_result FAILED ''No audio backends available'' None), self, ev) \<and>
          calls_of ev = [] \<and> filter is_interaction ev = []"
proof -
  have p: "play_with_backends E self fp t' =
      (Inr (mk_result FAILED ''No audio backends available'' None), self, [Attempt fp])" for fp t'
    using assms by (simp add: play_with_backends_def)
  have st: "status (mk_result FAILED ''No audio backends available'' None) \<noteq> SUCCESS"
    by (simp add: mk_result_def)
  obtain a u where det: "determine_audio E self cp = (a, u)"
    by (cases "determine_audio E self cp") auto
  show ?thesis
    unfolding pn_unfold[OF det p] using st by (simp add: p)
qed

text \<open>On the sample host, with a custom file and fallback enabled.\<close>

theorem empty_registry_witness:
  "fst (play_notification sample_env (sample_player\<lparr>backends := []\<rparr>) (Some ''/bad.wav'') []) =
     Inr (mk_result FAILED ''No audio backends available'' None)"
proof -
  have "backends (sample_player\<lparr>backends := []\<rparr>) = []" by simp
  from empty_registry[OF this, of sample_env "Some ''/bad.wav''" "[]"] show ?thesis by auto
qed

text \<open>
  The claim as it is written fails on the message: it is \<open>No audio backends available\<close>, not
  \<open>no backends available\<close>.
\<close>

theorem empty_registry_message:
  "play_notification sample_env (sample_player\<lparr>backends := []\<rparr>) None [] =
     (Inr \<lparr>status = FAILED, message = ''No audio backends available'', duration_ms = None,
           backend_used = None, fallback_used = False\<rparr>,
      sample_player\<lparr>backends := []\<rparr>, [Attempt ''/pkg/assets/notification.wav'']) \<and>
   ''No audio backends available'' \<noteq> ''no backends available''"
  by (simp add: eval_defs play_notification_def determine_audio_def fallback_condition_def)

section \<open>A backend's own checks\<close>

text \<open>
  Claim C7, as the code has it. For \<open>AFPlayBackend\<close>, and for a \<open>SimpleAudioBackend\<close> whose
  \<open>simpleaudio\<close> module is loaded or can be imported at that moment, \<open>play\<close> on a path for
  which \<open>exists()\<close> answers false returns a result with status \<open>FILE_NOT_FOUND\<close> and the
  message \<open>Audio file not found: \<close> followed by the path; the existence check is the last
  thing it does, and the mechanism is not started. When \<open>exists()\<close> raises instead (the
  system refuses to look the path up), the exception reaches the caller, again with nothing
  started. A \<open>SimpleAudioBackend\<close> whose module is not loaded and cannot be imported returns
  \<open>FAILED\<close> with the message \<open>simpleaudio not available\<close> before it looks at the path,
  whether or not the path exists. In none of these cases is a mechanism started.
\<close>

theorem play_missing_file:
  "(import_simpleaudio E t = Import_error \<longrightarrow>
      play E (SimpleAudioBackend False) fp v to t =
        (Inr (mk_result FAILED ''simpleaudio not available'' (Some ''simpleaudio'')),
         SimpleAudioBackend False, [Import_simpleaudio])) \<and>
   (file_exists E t fp = Inr False \<longrightarrow>
      play E AFPlayBackend fp v to t =
        (Inr (mk_result FILE_NOT_FOUND (''Audio file not found: '' @ str_path E fp) (Some ''afplay'')),
         AFPlayBackend, [Path_exists fp]) \<and>
      play E (SimpleAudioBackend True) fp v to t =
        (Inr (mk_result FILE_NOT_FOUND (''Audio file not found: '' @ str_path E fp)
                (Some ''simpleaudio'')),
         SimpleAudioBackend True, [Path_exists fp])) \<and>
   (import_simpleaudio E t = Imported \<and> file_exists E (t @ [Import_simpleaudio]) fp = Inr False \<longrightarrow>
      play E (SimpleAudioBackend False) fp v to t =
        (Inr (mk_result FILE_NOT_FOUND (''Audio file not found: '' @ str_path E fp)
                (Some ''simpleaudio'')),
         SimpleAudioBackend True, [Import_simpleaudio, Path_exists fp])) \<and>
   (file_exists E t fp = Inl e \<longrightarrow>
      play E AFPlayBackend fp v to t = (Inl e, AFPlayBackend, [Path_exists fp]) \<and>
      play E (SimpleAudioBackend True) fp v to t = (Inl e, SimpleAudioBackend True, [Path_exists fp])) \<and>
   (import_simpleaudio E t = Imported \<and> file_exists E (t @ [Import_simpleaudio]) fp = Inl e \<longrightarrow>
      play E (SimpleAudioBackend False) fp v to t =
        (Inl e, SimpleAudioBackend True, [Import_simpleaudio, Path_exists fp])) \<and>
   (is_concrete b \<and> file_exists E t fp \<noteq> Inr True \<and>
    file_exists E (t @ [Import_simpleaudio]) fp \<noteq> Inr True \<longrightarrow>
      filter starts_mechanism (snd (snd (play E b fp v to t))) = [])"
proof -
  have 1: "play E (SimpleAudioBackend False) fp v to t =
        (Inr (mk_result FAILED ''simpleaudio not available'' (Some ''simpleaudio'')),
         SimpleAudioBackend False, [Import_simpleaudio])"
    if "import_simpleaudio E t = Import_error"
    using that by (simp add: simpleaudio_play_def)
  have 2: "play E AFPlayBackend fp v to t =
        (Inr (mk_result FILE_NOT_FOUND (''Audio file not found: '' @ str_path E fp) (Some ''afplay'')),
         AFPlayBackend, [Path_exists fp])"
    and 3: "play E (SimpleAudioBackend True) fp v to t =
        (Inr (mk_result FILE_NOT_FOUND (''Audio file not found: '' @ str_path E fp)
                (Some ''simpleaudio'')),
         SimpleAudioBackend True, [Path_exists fp])"
    if "file_exists E t fp = Inr False"
    using that by (simp_all add: afplay_play_def simpleaudio_play_def)
  have 4: "play E (SimpleAudioBackend False) fp v to t =
        (Inr (mk_result FILE_NOT_FOUND (''Audio file not found: '' @ str_path E fp)
                (Some ''simpleaudio'')),
         SimpleAudioBackend True, [Import_simpleaudio, Path_exists fp])"
    if "import_simpleaudio E t = Imported \<and> file_exists E (t @ [Import_simpleaudio]) fp = Inr False"
    using that by (simp add: simpleaudio_play_def)
  have 5: "play E AFPlayBackend fp v to t = (Inl e, AFPlayBackend, [Path_exists fp])"
    and 6: "play E (SimpleAudioBackend True) fp v to t =
        (Inl e, SimpleAudioBackend True, [Path_exists fp])"
    if "file_exists E t fp = Inl e"
    using that by (simp_all add: afplay_play_def simpleaudio_play_def)
  have 7: "play E (SimpleAudioBackend False) fp v to t =
        (Inl e, SimpleAudioBackend True, [Import_simpleaudio, Path_exists fp])"
    if "import_simpleaudio E t = Imported \<and> file_exists E (t @ [Import_simpleaudio]) fp = Inl e"
    using that by (simp add: simpleaudio_play_def)
  have 8: "filter starts_mechanism (snd (snd (play E b fp v to t))) = []"
    if h: "is_concrete b \<and> file_exists E t fp \<noteq> Inr True \<and>
        file_exists E (t @ [Import_simpleaudio]) fp \<noteq> Inr True"
  proof (cases b)
    case (AudioBackend n)
    with h show ?thesis by simp
  next
    case AFPlayBackend
    with h show ?thesis
      by (cases "file_exists E t fp") (auto simp: afplay_play_def)
  next
    case (SimpleAudioBackend l)
    show ?thesis
    proof (cases l)
      case True
      with h SimpleAudioBackend show ?thesis
        by (cases "file_exists E t fp") (auto simp: simpleaudio_play_def)
    next
      case False
      with h SimpleAudioBackend show ?thesis
        by (cases "import_simpleaudio E t"; cases "file_exists E (t @ [Import_simpleaudio]) fp")
           (auto simp: simpleaudio_play_def)
    qed
  qed
  from 1 2 3 4 5 6 7 8 show ?thesis by blast
qed

text \<open>
  \<open>afplay\<close> on \<open>/missing.wav\<close> on the sample host, \<open>afplay\<close> on \<open>/name-too-long.wav\<close> on
  the host that refuses it, and \<open>simpleaudio\<close> on a host without the module, for a file that
  exists.
\<close>

theorem play_missing_file_witness:
  "play sample_env AFPlayBackend ''/missing.wav'' 1 30 [] =
     (Inr (mk_result FILE_NOT_FOUND ''Audio file not found: /missing.wav'' (Some ''afplay'')),
      AFPlayBackend, [Path_exists ''/missing.wav'']) \<and>
   play strict_env AFPlayBackend ''/name-too-long.wav'' 1 30 [] =
     (Inl (OSError ''[Errno 36] File name too long''), AFPlayBackend,
      [Path_exists ''/name-too-long.wav'']) \<and>
   play bare_env (SimpleAudioBackend False) ''/bad.wav'' 1 30 [] =
     (Inr (mk_result FAILED ''simpleaudio not available'' (Some ''simpleaudio'')),
      SimpleAudioBackend False, [Import_simpleaudio])"
proof -
  have a: "file_exists sample_env [] ''/missing.wav'' = Inr False"
    by (simp add: sample_env_def)
  have b: "file_exists strict_env [] ''/name-too-long.wav'' = Inl (OSError ''[Errno 36] File name too long'')"
    by (simp add: strict_env_def sample_env_def)
  have c: "import_simpleaudio bare_env [] = Import_error"
    by (simp add: bare_env_def sample_env_def)
  have s: "str_path sample_env ''/missing.wav'' = ''/missing.wav''"
    by (simp add: sample_env_def)
  note th1 = play_missing_file[of sample_env "[]" "''/missing.wav''" 1 30 NotImplementedError AFPlayBackend]
  note th2 = play_missing_file[of strict_env "[]" "''/name-too-long.wav''" 1 30
      "OSError ''[Errno 36] File name too long''" AFPlayBackend]
  note th3 = play_missing_file[of bare_env "[]" "''/bad.wav''" 1 30 NotImplementedError AFPlayBackend]
  from th1[THEN conjunct2, THEN conjunct1, THEN mp, OF a, THEN conjunct1]
  have 1: "play sample_env AFPlayBackend ''/missing.wav'' 1 30 [] =
     (Inr (mk_result FILE_NOT_FOUND ''Audio file not found: /missing.wav'' (Some ''afplay'')),
      AFPlayBackend, [Path_exists ''/missing.wav''])"
    unfolding s by simp
  note 2 = th2[THEN conjunct2, THEN conjunct2, THEN conjunct2, THEN conjunct1, THEN mp, OF b,
      THEN conjunct1]
  note 3 = th3[THEN conjunct1, THEN mp, OF c]
  from 1 2 3 show ?thesis by blast
qed

text \<open>
  The claim as it is written fails for a \<open>SimpleAudioBackend\<close> on a host without the
  \<open>simpleaudio\<close> module: the path does not exist, and the status is \<open>FAILED\<close>.
\<close>

theorem simpleaudio_unavailable_before_missing:
  "play bare_env (SimpleAudioBackend False) ''/missing.wav'' 1 30 [] =
     (Inr (mk_result FAILED ''simpleaudio not available'' (Some ''simpleaudio'')),
      SimpleAudioBackend False, [Import_simpleaudio]) \<and>
   file_exists bare_env [] ''/missing.wav'' = Inr False \<and>
   file_exists bare_env [Import_simpleaudio] ''/missing.wav'' = Inr False"
  by (simp add: bare_env_def sample_env_def simpleaudio_play_def)

text \<open>
  Claim C8 fails on the \<open>simpleaudio\<close> backend. On the sample host the worker does not finish
  \<open>/long.wav\<close> within the timeout: \<open>SimpleAudioBackend.play\<close> returns the status \<open>TIMEOUT\<close>,
  but between submitting the worker and leaving the executor block (which waits for the
  worker) it does nothing that stops the worker. \<open>AFPlayBackend.play\<close> on the same file
  kills the subprocess and waits for it.
\<close>

theorem simpleaudio_timeout_not_interrupted:
  "play sample_env (SimpleAudioBackend True) ''/long.wav'' 1 30 [] =
     (Inr (mk_result TIMEOUT ''Audio playback timed out after 30 seconds'' (Some ''simpleaudio'')),
      SimpleAudioBackend True,
      [Path_exists ''/long.wav'', Run_in_executor ''/long.wav'' 1, Executor_exit]) \<and>
   play sample_env AFPlayBackend ''/long.wav'' 1 30 [] =
     (Inr (mk_result TIMEOUT ''Audio playback timed out after 30 seconds'' (Some ''afplay'')),
      AFPlayBackend,
      [Path_exists ''/long.wav'', Create_subprocess_exec [''afplay'', ''/long.wav''],
       Process_kill, Process_wait])"
  by (simp add: eval_defs)


section \<open>Which file is played\<close>

lemma pn_prefix:
  assumes det: "determine_audio E self cp = (a, u)"
    and p1: "play_with_backends E self a t = (x1, self1, ev1)"
    and pn: "play_notification E self cp t = (x, self', ev)"
  shows "prefix ev1 ev"
proof -
  obtain x2 self2 ev2 where
    p2: "play_with_backends E self1 (default_sound_path self) (t @ ev1) = (x2, self2, ev2)"
    by (cases "play_with_backends E self1 (default_sound_path self) (t @ ev1)") auto
  from pn_unfold[OF det p1] pn p2 have "ev = ev1 \<or> ev = ev1 @ ev2"
    by (auto split: sum.splits if_splits)
  then show ?thesis by auto
qed

lemma loop_config:
  "backends_loop E (cfg\<lparr>custom_sound_path := c\<rparr>) bs fp lr t = backends_loop E cfg bs fp lr t"
proof (induction bs arbitrary: lr t)
  case Nil
  show ?case by simp
next
  case (Cons b bs)
  show ?case
    by (simp add: Let_def Cons.IH split: prod.splits sum.splits)
qed

lemma pwb_config:
  "play_with_backends E (self\<lparr>config := (config self)\<lparr>custom_sound_path := c\<rparr>\<rparr>) fp t =
     (case play_with_backends E self fp t of
        (x, s, ev) \<Rightarrow> (x, s\<lparr>config := (config self)\<lparr>custom_sound_path := c\<rparr>\<rparr>, ev))"
  by (simp add: play_with_backends_def loop_config split: prod.splits)

lemma det_no_override:
  "\<not> truthy cp \<Longrightarrow> determine_audio E self cp = (default_sound_path self, False)"
  by (simp add: determine_audio_def)

lemma pn_no_override:
  assumes "\<not> truthy cp"
  shows "play_notification E self cp t = play_with_backends E self (default_sound_path self) t"
proof -
  obtain x1 self1 ev1 where
    p1: "play_with_backends E self (default_sound_path self) t = (x1, self1, ev1)"
    by (cases "play_with_backends E self (default_sound_path self) t") auto
  show ?thesis
    unfolding pn_unfold[OF det_no_override[OF assms] p1] p1
    by (cases x1) (simp_all add: fallback_condition_def)
qed

text \<open>
  Claim C1, as the code has it. For every call of \<open>play_notification\<close>, the primary
  attempt is the run of \<open>_play_with_backends\<close> that the call starts with, and all its
  backend calls are on one file. With no override (\<open>None\<close> or the empty string) that file is
  the default sound. With an override and no configured \<open>custom_sound_path\<close> (\<open>None\<close> or
  empty) it is the override. With an override and a configured \<open>custom_sound_path\<close> it is
  the configured path, not the override.
\<close>

theorem primary_asset:
  assumes "play_notification E self cp t = (x, self', ev)"
  shows "\<exists>a x1 self1 ev1.
     a = (case cp of
            None \<Rightarrow> default_sound_path self
          | Some s \<Rightarrow>
              if s = [] then default_sound_path self
              else (case custom_sound_path (config self) of
                      None \<Rightarrow> Path E s
                    | Some c \<Rightarrow> if c = [] then Path E s else Path E c)) \<and>
     play_with_backends E self a t = (x1, self1, ev1) \<and> prefix ev1 ev \<and>
     attempts_of ev1 = [a] \<and> list_all (\<lambda>c. snd c = a) (calls_of ev1)"
proof -
  obtain a u where det: "determine_audio E self cp = (a, u)"
    by (cases "determine_audio E self cp") auto
  obtain x1 self1 ev1 where p1: "play_with_backends E self a t = (x1, self1, ev1)"
    by (cases "play_with_backends E self a t") auto
  have a: "a = (case cp of
            None \<Rightarrow> default_sound_path self
          | Some s \<Rightarrow>
              if s = [] then default_sound_path self
              else (case custom_sound_path (config self) of
                      None \<Rightarrow> Path E s
                    | Some c \<Rightarrow> if c = [] then Path E s else Path E c))"
    using det by (cases cp; cases "custom_sound_path (config self)")
      (auto simp: determine_audio_def split: if_splits)
  have c: "list_all (\<lambda>c. snd c = a) (calls_of ev1)"
    using pwb_calls_path[OF p1] by (auto simp: list_all_iff)
  from a p1 pn_prefix[OF det p1 assms] pwb_attempts[OF p1] c show ?thesis by blast
qed

text \<open>On the sample host, which has no configured path, the override \<open>/bad.wav\<close> is played.\<close>

theorem primary_asset_witness:
  "prefix (snd (snd (play_with_backends sample_env sample_player ''/bad.wav'' [])))
     (snd (snd (play_notification sample_env sample_player (Some ''/bad.wav'') [])))"
proof -
  obtain x s ev where pn: "play_notification sample_env sample_player (Some ''/bad.wav'') [] = (x, s, ev)"
    by (cases "play_notification sample_env sample_player (Some ''/bad.wav'') []") auto
  have "custom_sound_path (config sample_player) = None" "Path sample_env ''/bad.wav'' = ''/bad.wav''"
    by (simp_all add: sample_player_def sample_config_def sample_env_def)
  with primary_asset[OF pn] obtain x1 self1 ev1 where
    "play_with_backends sample_env sample_player ''/bad.wav'' [] = (x1, self1, ev1)" "prefix ev1 ev"
    by auto
  with pn show ?thesis by simp
qed

text \<open>
  The claim as it is written fails: with \<open>/configured.wav\<close> configured, the override
  \<open>/mine.wav\<close> is never played; the configured file is.
\<close>

theorem override_replaced_by_configured:
  "play_notification sample_env
       (sample_player\<lparr>config := sample_config\<lparr>custom_sound_path := Some ''/configured.wav''\<rparr>\<rparr>)
       (Some ''/mine.wav'') [] =
     (Inr (mk_result SUCCESS ''Audio played successfully'' (Some ''afplay'')),
      sample_player\<lparr>config := sample_config\<lparr>custom_sound_path := Some ''/configured.wav''\<rparr>\<rparr>,
      [Attempt ''/configured.wav'',
       Play_called ''afplay'' ''/configured.wav'' 1 30,
       Path_exists ''/configured.wav'',
       Create_subprocess_exec [''afplay'', ''/configured.wav''],
       Play_returned ''afplay'' (mk_result SUCCESS ''Audio played successfully'' (Some ''afplay''))]) \<and>
   Path sample_env ''/mine.wav'' = ''/mine.wav''"
  by (simp add: eval_defs play_notification_def determine_audio_def fallback_condition_def)

lemma pn_configured:
  assumes "truthy cp \<and> truthy (custom_sound_path (config self))"
  shows "play_notification E self cp t = play_notification E self (custom_sound_path (config self)) t"
  using assms by (simp add: play_notification_def determine_audio_def)

text \<open>
  Claim C10. For every call of \<open>play_notification\<close> with \<open>custom_path\<close> equal to \<open>None\<close> (or
  empty), the configured \<open>custom_sound_path\<close> is ignored: the file is the default sound,
  the attempt is not custom, the call is the one run of \<open>_play_with_backends\<close> on the
  default sound with no fallback phase, and changing the configured path changes neither
  the result nor the events. With a non-empty \<open>custom_path\<close> and a non-empty configured
  path, the configured path replaces the caller's argument: the call does what it does when
  the caller passes the configured path itself, and its primary attempt is the run of
  \<open>_play_with_backends\<close> on the configured path, all of whose backend calls are on that
  path.
\<close>

theorem no_override_ignores_configured:
  "(\<not> truthy cp \<longrightarrow>
      determine_audio E self cp = (default_sound_path self, False) \<and>
      play_notification E self cp t = play_with_backends E self (default_sound_path self) t \<and>
      attempts_of (snd (snd (play_notification E self cp t))) = [default_sound_path self] \<and>
      fst (play_notification E (self\<lparr>config := (config self)\<lparr>custom_sound_path := c\<rparr>\<rparr>) cp t)
        = fst (play_notification E self cp t) \<and>
      snd (snd (play_notification E (self\<lparr>config := (config self)\<lparr>custom_sound_path := c\<rparr>\<rparr>) cp t))
        = snd (snd (play_notification E self cp t))) \<and>
   (truthy cp \<and> truthy (custom_sound_path (config self)) \<longrightarrow>
      determine_audio E self cp = (Path E (the (custom_sound_path (config self))), True) \<and>
      play_notification E self cp t = play_notification E self (custom_sound_path (config self)) t \<and>
      (\<exists>x1 self1 ev1.
         play_with_backends E self (Path E (the (custom_sound_path (config self)))) t
           = (x1, self1, ev1) \<and>
         prefix ev1 (snd (snd (play_notification E self cp t))) \<and>
         attempts_of ev1 = [Path E (the (custom_sound_path (config self)))] \<and>
         list_all (\<lambda>c. snd c = Path E (the (custom_sound_path (config self)))) (calls_of ev1)))"
proof -
  let ?self' = "self\<lparr>config := (config self)\<lparr>custom_sound_path := c\<rparr>\<rparr>"
  let ?a = "Path E (the (custom_sound_path (config self)))"
  have A: "determine_audio E self cp = (default_sound_path self, False)"
    and B: "play_notification E self cp t = play_with_backends E self (default_sound_path self) t"
    and C: "attempts_of (snd (snd (play_notification E self cp t))) = [default_sound_path self]"
    and D: "fst (play_notification E ?self' cp t) = fst (play_notification E self cp t)"
    and F: "snd (snd (play_notification E ?self' cp t)) = snd (snd (play_notification E self cp t))"
    if n: "\<not> truthy cp"
  proof -
    show "determine_audio E self cp = (default_sound_path self, False)"
      by (rule det_no_override[OF n])
    show b: "play_notification E self cp t = play_with_backends E self (default_sound_path self) t"
      by (rule pn_no_override[OF n])
    obtain x1 self1 ev1 where
      p1: "play_with_backends E self (default_sound_path self) t = (x1, self1, ev1)"
      by (cases "play_with_backends E self (default_sound_path self) t") auto
    show "attempts_of (snd (snd (play_notification E self cp t))) = [default_sound_path self]"
      unfolding b p1 using pwb_attempts[OF p1] by simp
    have b': "play_notification E ?self' cp t = play_with_backends E ?self' (default_sound_path self) t"
      using pn_no_override[OF n, of E ?self' t] by simp
    show "fst (play_notification E ?self' cp t) = fst (play_notification E self cp t)"
      unfolding b b' pwb_config p1 by simp
    show "snd (snd (play_notification E ?self' cp t)) = snd (snd (play_notification E self cp t))"
      unfolding b b' pwb_config p1 by simp
  qed
  have G: "determine_audio E self cp = (?a, True)"
    and H: "play_notification E self cp t = play_notification E self (custom_sound_path (config self)) t"
    and I: "\<exists>x1 self1 ev1.
         play_with_backends E self ?a t = (x1, self1, ev1) \<and>
         prefix ev1 (snd (snd (play_notification E self cp t))) \<and>
         attempts_of ev1 = [?a] \<and> list_all (\<lambda>c. snd c = ?a) (calls_of ev1)"
    if tr: "truthy cp \<and> truthy (custom_sound_path (config self))"
  proof -
    show det: "determine_audio E self cp = (?a, True)"
      using tr by (simp add: determine_audio_def)
    show "play_notification E self cp t = play_notification E self (custom_sound_path (config self)) t"
      by (rule pn_configured[OF tr])
    obtain x1 self1 ev1 where p1: "play_with_backends E self ?a t = (x1, self1, ev1)"
      by (cases "play_with_backends E self ?a t") auto
    obtain x s ev where pn: "play_notification E self cp t = (x, s, ev)"
      by (cases "play_notification E self cp t") auto
    have "list_all (\<lambda>c. snd c = ?a) (calls_of ev1)"
      using pwb_calls_path[OF p1] by (auto simp: list_all_iff)
    with p1 pn_prefix[OF det p1 pn] pwb_attempts[OF p1] pn
    show "\<exists>x1 self1 ev1.
         play_with_backends E self ?a t = (x1, self1, ev1) \<and>
         prefix ev1 (snd (snd (play_notification E self cp t))) \<and>
         attempts_of ev1 = [?a] \<and> list_all (\<lambda>c. snd c = ?a) (calls_of ev1)"
      by simp
  qed
  from A B C D F G H I show ?thesis by blast
qed

text \<open>
  On the sample host with \<open>/configured.wav\<close> configured: without an override the default
  sound is played; with the override \<open>/mine.wav\<close> the one backend call is on the configured
  file.
\<close>

theorem no_override_ignores_configured_witness:
  "attempts_of (snd (snd (play_notification sample_env
       (sample_player\<lparr>config := sample_config\<lparr>custom_sound_path := Some ''/configured.wav''\<rparr>\<rparr>)
       None []))) = [''/pkg/assets/notification.wav''] \<and>
   calls_of (snd (snd (play_notification sample_env
       (sample_player\<lparr>config := sample_config\<lparr>custom_sound_path := Some ''/configured.wav''\<rparr>\<rparr>)
       (Some ''/mine.wav'') []))) = [(''afplay'', ''/configured.wav'')]"
proof -
  let ?P = "sample_player\<lparr>config := sample_config\<lparr>custom_sound_path := Some ''/configured.wav''\<rparr>\<rparr>"
  have f: "default_sound_path ?P = ''/pkg/assets/notification.wav''"
    "custom_sound_path (config ?P) = Some ''/configured.wav''"
    by (simp_all add: sample_player_def)
  have n: "\<not> truthy (None :: string option)" by simp
  note th1 = no_override_ignores_configured[of None sample_env ?P "[]" None]
  from th1[THEN conjunct1, THEN mp, OF n]
  have "attempts_of (snd (snd (play_notification sample_env ?P None []))) = [default_sound_path ?P]"
    by blast
  then have 1: "attempts_of (snd (snd (play_notification sample_env ?P None [])))
      = [''/pkg/assets/notification.wav'']"
    unfolding f .
  have tr: "truthy (Some ''/mine.wav'') \<and> truthy (custom_sound_path (config ?P))"
    unfolding f by simp
  note th2 = no_override_ignores_configured[of "Some ''/mine.wav''" sample_env ?P "[]" None]
  from th2[THEN conjunct2, THEN mp, OF tr]
  have "play_notification sample_env ?P (Some ''/mine.wav'') [] =
        play_notification sample_env ?P (custom_sound_path (config ?P)) []"
    by blast
  then have 2: "calls_of (snd (snd (play_notification sample_env ?P (Some ''/mine.wav'') [])))
      = [(''afplay'', ''/configured.wav'')]"
    unfolding f
    by (simp add: eval_defs play_notification_def determine_audio_def fallback_condition_def)
  from 1 2 show ?thesis by (rule conjI)
qed

end
